theory Spec2Isabelle
  imports Main "HOL-Library.Sublist"
begin

section \<open>Text\<close>

text \<open>
  The program is one browser script, \<^verbatim>\<open>script.js\<close>. Its functions are embedded as HOL
  functions over an explicit state record; what the script leaves to the platform (the
  network, the speech engine, the Markdown renderer, the Unicode case tables, the user)
  enters as arguments.

  A JavaScript string is held as \<^typ>\<open>string\<close>: the bytes of its UTF-8 encoding, a surrogate
  that stands alone as the three bytes of its code point. \<open>chars\<close> cuts the bytes into
  characters, each a byte with the continuation bytes that follow it.
\<close>

definition is_ascii :: "char \<Rightarrow> bool" where
  "is_ascii c = (\<not> digit7 c)"

definition is_continuation :: "char \<Rightarrow> bool" where
  "is_continuation c = (digit7 c \<and> \<not> digit6 c)"

fun chars :: "string \<Rightarrow> string list" where
  "chars [] = []"
| "chars (c # cs) =
     (case chars cs of
        [] \<Rightarrow> [[c]]
      | x # xs \<Rightarrow>
          (case x of
             [] \<Rightarrow> [c] # xs
           | b # bs \<Rightarrow> if is_continuation b then (c # x) # xs else [c] # x # xs))"

text \<open>
  The first code unit of a string: its first character, or, where that character has four
  bytes (lead byte \<open>1111\<dots>\<close>) and so is a pair of surrogates in JavaScript, the first of
  the pair, computed from the character's code point.
\<close>

definition lead_surrogate :: "char \<Rightarrow> char \<Rightarrow> char \<Rightarrow> char \<Rightarrow> string" where
  "lead_surrogate b0 b1 b2 b3 =
     (let cp = (of_char b0 mod 8) * 262144 + (of_char b1 mod 64) * 4096
               + (of_char b2 mod 64) * 64 + of_char b3 mod (64 :: nat);
          h = 55296 + (cp - 65536) div 1024
      in [CHR 0xED, char_of (128 + (h div 64) mod 64), char_of (128 + h mod 64)])"

definition first_unit :: "string \<Rightarrow> string" where
  "first_unit s =
     (case chars s of
        [] \<Rightarrow> []
      | ch # rest \<Rightarrow>
          (case ch of
             [b0, b1, b2, b3] \<Rightarrow>
               if digit7 b0 \<and> digit6 b0 \<and> digit5 b0 \<and> digit4 b0
               then lead_surrogate b0 b1 b2 b3 else ch
           | _ \<Rightarrow> ch))"

text \<open>
  The characters that \<^verbatim>\<open>trim\<close> removes, the white space and line terminators of
  ECMAScript: U+0009 to U+000D, U+0020, U+00A0, U+1680, U+2000 to U+200A, U+2028, U+2029,
  U+202F, U+205F, U+3000 and U+FEFF.
\<close>

definition whiteSpace :: "string list" where
  "whiteSpace =
     [[CHR 0x09], [CHR 0x0A], [CHR 0x0B], [CHR 0x0C], [CHR 0x0D], [CHR 0x20],
      [CHR 0xC2, CHR 0xA0], [CHR 0xE1, CHR 0x9A, CHR 0x80],
      [CHR 0xE2, CHR 0x80, CHR 0x80], [CHR 0xE2, CHR 0x80, CHR 0x81],
      [CHR 0xE2, CHR 0x80, CHR 0x82], [CHR 0xE2, CHR 0x80, CHR 0x83],
      [CHR 0xE2, CHR 0x80, CHR 0x84], [CHR 0xE2, CHR 0x80, CHR 0x85],
      [CHR 0xE2, CHR 0x80, CHR 0x86], [CHR 0xE2, CHR 0x80, CHR 0x87],
      [CHR 0xE2, CHR 0x80, CHR 0x88], [CHR 0xE2, CHR 0x80, CHR 0x89],
      [CHR 0xE2, CHR 0x80, CHR 0x8A], [CHR 0xE2, CHR 0x80, CHR 0xA8],
      [CHR 0xE2, CHR 0x80, CHR 0xA9], [CHR 0xE2, CHR 0x80, CHR 0xAF],
      [CHR 0xE2, CHR 0x81, CHR 0x9F], [CHR 0xE3, CHR 0x80, CHR 0x80],
      [CHR 0xEF, CHR 0xBB, CHR 0xBF]]"

definition isWhiteSpace :: "string \<Rightarrow> bool" where
  "isWhiteSpace ch = (ch \<in> set whiteSpace)"

definition trim :: "string \<Rightarrow> string" where
  "trim s =
     concat (rev (dropWhile isWhiteSpace (rev (dropWhile isWhiteSpace (chars s)))))"

text \<open>
  \<^verbatim>\<open>toLowerCase\<close>. On a string of ASCII characters it maps the letters A to Z to a to z
  and leaves every other character. On any other string it is the Unicode case mapping
  of the platform, \<open>unicode\<close>, of which nothing is assumed.
\<close>

definition toLowerChar :: "char \<Rightarrow> char" where
  "toLowerChar c =
     (case map_of (zip ''ABCDEFGHIJKLMNOPQRSTUVWXYZ'' ''abcdefghijklmnopqrstuvwxyz'') c of
        None \<Rightarrow> c
      | Some l \<Rightarrow> l)"

type_synonym case_mapping = "string \<Rightarrow> string"

definition toLowerCase :: "case_mapping \<Rightarrow> string \<Rightarrow> string" where
  "toLowerCase unicode s = (if list_all is_ascii s then map toLowerChar s else unicode s)"

text \<open>\<open>startsWith s t\<close>: \<open>s\<close> begins with \<open>t\<close>. \<open>includes_str s t\<close>: \<open>t\<close> occurs in \<open>s\<close>,
  for a \<open>t\<close> of whole characters; the script searches for ASCII words only.\<close>

fun startsWith :: "string \<Rightarrow> string \<Rightarrow> bool" where
  "startsWith s [] = True"
| "startsWith [] (c # t) = False"
| "startsWith (a # s) (c # t) = (a = c \<and> startsWith s t)"

fun includes_str :: "string \<Rightarrow> string \<Rightarrow> bool" where
  "includes_str [] t = (t = [])"
| "includes_str (a # s) t = (startsWith (a # s) t \<or> includes_str s t)"

text \<open>Lines joined by a line feed, as a template literal that spans lines reads.\<close>

fun join_lines :: "string list \<Rightarrow> string" where
  "join_lines [] = []"
| "join_lines [l] = l"
| "join_lines (l # m # ls) = l @ [CHR 0x0A] @ join_lines (m # ls)"


section \<open>JavaScript values and errors\<close>

datatype js_error = Error string | TypeError string | SyntaxError string

fun message :: "js_error \<Rightarrow> string" where
  "message (Error m) = m"
| "message (TypeError m) = m"
| "message (SyntaxError m) = m"

text \<open>
  A value as \<^verbatim>\<open>JSON.parse\<close> produces it, and \<^verbatim>\<open>undefined\<close>, which reading a missing
  property gives. A number is kept as its canonical decimal rendering. An object is the
  list of its own properties.
\<close>

datatype jsval =
    JUndefined
  | JNull
  | JBool bool
  | JNum string
  | JStr string
  | JArr "jsval list"
  | JObj "(string \<times> jsval) list"

text \<open>The error of reading a property of \<^verbatim>\<open>undefined\<close> or \<^verbatim>\<open>null\<close>. The wording of its
  message is the engine's own (here V8's); nothing below depends on it.\<close>

definition cannot_read :: "string \<Rightarrow> string \<Rightarrow> js_error" where
  "cannot_read what name =
     TypeError (''Cannot read properties of '' @ what @ '' (reading '' @ [CHR 0x27] @ name @
       [CHR 0x27] @ '')'')"

text \<open>
  \<^verbatim>\<open>v.name\<close>, for a name that no built-in prototype defines (the script reads
  \<^verbatim>\<open>choices\<close>, \<^verbatim>\<open>message\<close>, \<^verbatim>\<open>content\<close> and \<^verbatim>\<open>error\<close>): a \<^verbatim>\<open>TypeError\<close> on
  \<^verbatim>\<open>undefined\<close> and \<^verbatim>\<open>null\<close>, the property of an object, \<^verbatim>\<open>undefined\<close> otherwise.
\<close>

fun get_prop :: "string \<Rightarrow> jsval \<Rightarrow> js_error + jsval" where
  "get_prop name JUndefined = Inl (cannot_read ''undefined'' name)"
| "get_prop name JNull = Inl (cannot_read ''null'' name)"
| "get_prop name (JObj kvs) = Inr (case map_of kvs name of None \<Rightarrow> JUndefined | Some v \<Rightarrow> v)"
| "get_prop name v = Inr JUndefined"

text \<open>\<^verbatim>\<open>v[0]\<close>: the first element of an array, the first code unit of a string.\<close>

fun get_first :: "jsval \<Rightarrow> js_error + jsval" where
  "get_first JUndefined = Inl (cannot_read ''undefined'' ''0'')"
| "get_first JNull = Inl (cannot_read ''null'' ''0'')"
| "get_first (JArr []) = Inr JUndefined"
| "get_first (JArr (x # xs)) = Inr x"
| "get_first (JStr []) = Inr JUndefined"
| "get_first (JStr (c # cs)) = Inr (JStr (first_unit (c # cs)))"
| "get_first (JObj kvs) = Inr (case map_of kvs ''0'' of None \<Rightarrow> JUndefined | Some v \<Rightarrow> v)"
| "get_first v = Inr JUndefined"

text \<open>Truthiness, as \<^verbatim>\<open>||\<close> and \<^verbatim>\<open>if\<close> test it.\<close>

fun truthy :: "jsval \<Rightarrow> bool" where
  "truthy JUndefined = False"
| "truthy JNull = False"
| "truthy (JBool b) = b"
| "truthy (JNum r) = (r \<noteq> ''0'')"
| "truthy (JStr s) = (s \<noteq> [])"
| "truthy (JArr xs) = True"
| "truthy (JObj kvs) = True"

fun join_comma :: "string list \<Rightarrow> string" where
  "join_comma [] = []"
| "join_comma [s] = s"
| "join_comma (s # t # ss) = s @ '','' @ join_comma (t # ss)"

text \<open>String conversion, as \<^verbatim>\<open>new Error(v)\<close> and a template literal apply it.\<close>

fun ToString :: "jsval \<Rightarrow> string" where
  "ToString JUndefined = ''undefined''"
| "ToString JNull = ''null''"
| "ToString (JBool b) = (if b then ''true'' else ''false'')"
| "ToString (JNum r) = r"
| "ToString (JStr s) = s"
| "ToString (JArr xs) =
     join_comma (map (\<lambda>x. if x = JUndefined \<or> x = JNull then [] else ToString x) xs)"
| "ToString (JObj kvs) = ''[object Object]''"


section \<open>The fixed texts\<close>

definition SYSTEM_PROMPT :: string where
  "SYSTEM_PROMPT = join_lines [
    ''You are a conversational meal prep assistant.'',
    '''',
    ''You are responsible for:'',
    ''- Understanding natural language (including plurals, synonyms, '' @
      ''and implicit meaning)'',
    ''- Extracting and remembering user-provided information across '' @ ''turns'',
    ''- Inferring reasonable defaults when information is missing'',
    ''- Deciding when enough information is available'',
    ''- Generating a complete weekly meal plan when ready'',
    '''',
    ''------------------------------------'',
    ''MEMORY & STATE RULES'',
    ''------------------------------------'',
    '''',
    ''All user messages are cumulative.'',
    ''If the user provides information, you MUST remember it and '' @
      ''NEVER ask for it again.'',
    '''',
    ''You must internally track:'',
    ''- Household composition (adults, children, ages)'',
    ''- Meals to plan (lunch, dinner, etc.)'',
    ''- Duration (default to 7 days if '' @ [CHR 0x22] @ ''this week'' @ [CHR 0x22] @
      '' is mentioned)'',
    ''- Nutrition goals (default to balanced if unspecified)'',
    ''- Allergies or intolerances (default to none if unspecified)'',
    ''- Preferences and dislikes'',
    '''',
    ''------------------------------------'',
    ''INFERENCE RULES'',
    ''------------------------------------'',
    '''',
    ''You MUST correctly interpret:'',
    ''- Singular and plural forms (e.g. lunch/lunches, dinner/dinners)'',
    ''- '' @ [CHR 0x22] @ ''a kid'' @ [CHR 0x22] @ '' or '' @ [CHR 0x22] @ ''my kid'' @
      [CHR 0x22] @ '' as one child'',
    ''- '' @ [CHR 0x22] @ ''this week'' @ [CHR 0x22] @ '' as 7 days'',
    ''- Silence about allergies as '' @ [CHR 0x22] @ ''no allergies'' @ [CHR 0x22],
    '''',
    ''Do NOT ask questions if a reasonable assumption can be made.'',
    '''',
    ''------------------------------------'',
    ''DECISION RULE: ASK vs GENERATE'',
    ''------------------------------------'',
    '''',
    ''If you have enough information to create a reasonable meal plan:'',
    [CHR 0xE2, CHR 0x9D, CHR 0x8C] @ '' STOP asking questions'',
    [CHR 0xE2, CHR 0x9C, CHR 0x85] @ '' GENERATE a Version 1 weekly meal plan immediately'',
    '''',
    ''A first usable plan is ALWAYS better than waiting for perfect '' @ ''data.'',
    '''',
    ''------------------------------------'',
    ''RESPONSE STRUCTURE'',
    ''------------------------------------'',
    '''',
    ''When responding:'',
    '''',
    ''1'' @ [CHR 0xEF, CHR 0xB8, CHR 0x8F, CHR 0xE2, CHR 0x83, CHR 0xA3] @
      '' Briefly acknowledge what you understood  '',
    ''2'' @ [CHR 0xEF, CHR 0xB8, CHR 0x8F, CHR 0xE2, CHR 0x83, CHR 0xA3] @
      '' If needed, ask ONLY truly missing questions  '',
    ''3'' @ [CHR 0xEF, CHR 0xB8, CHR 0x8F, CHR 0xE2, CHR 0x83, CHR 0xA3] @
      '' If ready, generate a full weekly meal plan (lunch + dinner, '' @ ''Monday'' @
      [CHR 0xE2, CHR 0x80, CHR 0x93] @ ''Sunday)  '',
    ''4'' @ [CHR 0xEF, CHR 0xB8, CHR 0x8F, CHR 0xE2, CHR 0x83, CHR 0xA3] @
      '' After the plan, optionally suggest refinements'',
    '''',
    ''------------------------------------'',
    ''ANTI-FRUSTRATION RULE'',
    ''------------------------------------'',
    '''',
    ''Assume the user does NOT want to repeat themselves.'',
    ''Never re-ask answered questions.'',
    ''Never ignore earlier information.'',
    '''',
    ''------------------------------------'',
    ''GOAL'',
    ''------------------------------------'',
    '''',
    ''Help the user get a concrete, family-friendly weekly meal prep '' @
      ''plan as efficiently as possible.'']"

text \<open>The three canned answers of \<^verbatim>\<open>getMockAIResponse\<close>, in the order of the source.\<close>

definition template_child :: string where
  "template_child = join_lines [
    ''Got it '' @ [CHR 0xE2, CHR 0x80, CHR 0x94] @ '' you'' @ [CHR 0x27] @
      ''re planning meals for your family including a child.'',
    '''',
    ''I just need a bit more information:'',
    [CHR 0xE2, CHR 0x80, CHR 0xA2] @ '' How many adults are in your household?'',
    [CHR 0xE2, CHR 0x80, CHR 0xA2] @
      '' Which meals should I plan? (breakfast, lunch, dinner, snacks)'',
    [CHR 0xE2, CHR 0x80, CHR 0xA2] @ '' How many days should the meal prep cover?'']"

definition template_general :: string where
  "template_general = join_lines [
    ''Got it '' @ [CHR 0xE2, CHR 0x80, CHR 0x94] @ '' I'' @ [CHR 0x27] @
      ''m here to help with your meal prep planning.'',
    '''',
    ''I just need a bit more information:'',
    [CHR 0xE2, CHR 0x80, CHR 0xA2] @
      '' How many people are you cooking for? How many adults and how '' @ ''many children?'',
    [CHR 0xE2, CHR 0x80, CHR 0xA2] @
      '' Which meals should I plan? (breakfast, lunch, dinner, snacks)'',
    [CHR 0xE2, CHR 0x80, CHR 0xA2] @ '' How many days should the meal prep cover?'']"

definition template_default :: string where
  "template_default = join_lines [
    ''I understand. Let me help you create a meal prep plan. Could '' @
      ''you tell me more about your household and meal preferences?'']"


section \<open>The local fallback synthesizer\<close>

text \<open>\<open>lc\<close> is the platform's Unicode case mapping, here and below.\<close>

definition getMockAIResponse :: "case_mapping \<Rightarrow> string \<Rightarrow> string" where
  "getMockAIResponse lc userMessage =
     (let lowerMessage = toLowerCase lc userMessage in
      if includes_str lowerMessage ''meal'' \<or> includes_str lowerMessage ''prep''
         \<or> includes_str lowerMessage ''plan''
      then
        if includes_str lowerMessage ''kid'' \<or> includes_str lowerMessage ''child''
        then template_child
        else template_general
      else template_default)"


section \<open>Configuration, state and page\<close>

record config =
  apiKey :: string
  apiEndpoint :: string
  model :: string
  useMockAI :: bool

text \<open>\<open>CONFIG stored\<close>: the configuration as the script creates it, \<open>stored\<close> being what
  \<^verbatim>\<open>localStorage.getItem('openai_api_key')\<close> returns.\<close>

definition CONFIG :: "string option \<Rightarrow> config" where
  "CONFIG stored =
     \<lparr>apiKey = (case stored of None \<Rightarrow> [] | Some k \<Rightarrow> k),
      apiEndpoint = ''https://api.openai.com/v1/chat/completions'',
      model = ''gpt-4o'',
      useMockAI = False\<rparr>"

record turn =
  role :: string
  content :: jsval

record recognizer =
  continuous :: bool
  interimResults :: bool
  lang :: string

datatype msg_body = TextContent jsval | InnerHTML string

record message_div =
  className :: string
  shown :: msg_body

text \<open>
  The \<^verbatim>\<open>state\<close> object of the script (the first four fields) and what the script reads
  and writes of the page: whether the microphone button is hidden and carries the class
  \<^verbatim>\<open>listening\<close>, the value of the input field, the children of the conversation element,
  whether the welcome message is hidden, the status line with its class \<^verbatim>\<open>active\<close>, and
  the number of status-expiry callbacks that \<^verbatim>\<open>setTimeout\<close> holds. Scrolling and console
  output are left out.
\<close>

record app_state =
  isListening :: bool
  recognition :: "recognizer option"
  conversationHistory :: "turn list"
  isLoading :: bool
  micButton_hidden :: bool
  micButton_listening :: bool
  textInput_value :: string
  conversation :: "message_div list"
  welcomeMessage_hidden :: bool
  status_textContent :: string
  status_active :: bool
  timers :: nat

text \<open>\<^verbatim>\<open>window.marked\<close>: absent, an object with a \<^verbatim>\<open>parse\<close> function, or a function.\<close>

datatype marked =
    NoMarked
  | MarkedParse "jsval \<Rightarrow> js_error + string"
  | MarkedFunction "jsval \<Rightarrow> js_error + string"

text \<open>A call completes with a value or raises; the state it leaves comes with either.\<close>

type_synonym 'a completion = "(js_error + 'a) \<times> app_state"

definition try_catch ::
  "'a completion \<Rightarrow> (js_error \<Rightarrow> app_state \<Rightarrow> 'a completion) \<Rightarrow> 'a completion" where
  "try_catch block handler =
     (case block of (Inl e, s) \<Rightarrow> handler e s | (Inr v, s) \<Rightarrow> (Inr v, s))"

definition try_finally ::
  "'a completion \<Rightarrow> (app_state \<Rightarrow> app_state) \<Rightarrow> 'a completion" where
  "try_finally block finalizer = (case block of (r, s) \<Rightarrow> (r, finalizer s))"

definition bind_err :: "js_error + 'a \<Rightarrow> ('a \<Rightarrow> js_error + 'b) \<Rightarrow> js_error + 'b" where
  "bind_err r f = (case r of Inl e \<Rightarrow> Inl e | Inr v \<Rightarrow> f v)"


section \<open>Status line and message list\<close>

definition updateStatus :: "string \<Rightarrow> app_state \<Rightarrow> app_state" where
  "updateStatus msg s =
     (let s1 = s\<lparr>status_textContent := msg\<rparr> in
      if msg \<noteq> [] then
        (let s2 = s1\<lparr>status_active := True\<rparr> in
         if \<not> isListening s2 \<and> \<not> isLoading s2 then s2\<lparr>timers := Suc (timers s2)\<rparr> else s2)
      else s1\<lparr>status_active := False\<rparr>)"

text \<open>The callback that \<^verbatim>\<open>updateStatus\<close> hands to \<^verbatim>\<open>setTimeout\<close>.\<close>

definition status_expiry :: "app_state \<Rightarrow> app_state" where
  "status_expiry s =
     (if \<not> isListening s \<and> \<not> isLoading s
      then s\<lparr>status_textContent := [], status_active := False\<rparr>
      else s)"

definition render :: "marked \<Rightarrow> jsval \<Rightarrow> bool \<Rightarrow> js_error + msg_body" where
  "render mk txt isUser =
     (if isUser then Inr (TextContent txt)
      else case mk of
        MarkedParse parse \<Rightarrow> bind_err (parse txt) (\<lambda>html. Inr (InnerHTML html))
      | MarkedFunction f \<Rightarrow> bind_err (f txt) (\<lambda>html. Inr (InnerHTML html))
      | NoMarked \<Rightarrow> Inr (TextContent txt))"

definition addMessage :: "marked \<Rightarrow> jsval \<Rightarrow> bool \<Rightarrow> app_state \<Rightarrow> unit completion" where
  "addMessage mk txt isUser s =
     (let s1 = (if \<not> welcomeMessage_hidden s then s\<lparr>welcomeMessage_hidden := True\<rparr> else s);
          messageDiv_className = ''message '' @ (if isUser then ''user'' else ''assistant'')
      in case render mk txt isUser of
           Inl e \<Rightarrow> (Inl e, s1)
         | Inr b \<Rightarrow>
             (Inr (),
              s1\<lparr>conversation :=
                   conversation s1 @ [\<lparr>className = messageDiv_className, shown = b\<rparr>]\<rparr>))"


section \<open>Speech capture\<close>

text \<open>\<open>supported\<close>: whether the browser has a speech recognition constructor.\<close>

definition initSpeechRecognition :: "bool \<Rightarrow> app_state \<Rightarrow> app_state" where
  "initSpeechRecognition supported s =
     (if \<not> supported then s\<lparr>micButton_hidden := True\<rparr>
      else s\<lparr>recognition :=
                Some \<lparr>continuous = False, interimResults = False, lang = ''en-US''\<rparr>\<rparr>)"

text \<open>
  \<^verbatim>\<open>state.recognition.start()\<close> and \<^verbatim>\<open>state.recognition.stop()\<close> belong to the browser:
  each returns or raises, here as the browser decides (\<open>None\<close>: it returned).
\<close>

definition platform_call :: "js_error option \<Rightarrow> app_state \<Rightarrow> unit completion" where
  "platform_call raised s = (case raised of None \<Rightarrow> (Inr (), s) | Some e \<Rightarrow> (Inl e, s))"

definition startListening :: "js_error option \<Rightarrow> app_state \<Rightarrow> unit completion" where
  "startListening start_raises s =
     (if recognition s = None
      then (Inr (), updateStatus ''Speech recognition not available in this browser.'' s)
      else
        try_catch
          (case platform_call start_raises s of
             (Inl e, s1) \<Rightarrow> (Inl e, s1)
           | (Inr u, s1) \<Rightarrow>
               (Inr (),
                updateStatus ''Listening... Speak now!''
                  (s1\<lparr>isListening := True, micButton_listening := True\<rparr>)))
          (\<lambda>error s1. (Inr (), updateStatus ''Could not start listening. Please try again.'' s1)))"

definition stopListening :: "js_error option \<Rightarrow> app_state \<Rightarrow> unit completion" where
  "stopListening stop_raises s =
     (if recognition s \<noteq> None \<and> isListening s then
        (case try_catch (platform_call stop_raises s) (\<lambda>error s1. (Inr (), s1)) of
           (Inl e, s1) \<Rightarrow> (Inl e, s1)
         | (Inr u, s1) \<Rightarrow> (Inr (), s1\<lparr>isListening := False, micButton_listening := False\<rparr>))
      else (Inr (), s))"

text \<open>The three handlers that \<^verbatim>\<open>initSpeechRecognition\<close> installs.\<close>

definition onresult :: "string \<Rightarrow> app_state \<Rightarrow> app_state" where
  "onresult transcript s =
     updateStatus ''Speech recognized! Click send or speak again.''
       (s\<lparr>textInput_value := transcript\<rparr>)"

definition onerror :: "string \<Rightarrow> js_error option \<Rightarrow> app_state \<Rightarrow> unit completion" where
  "onerror event_error stop_raises s =
     stopListening stop_raises
       (updateStatus (''Error: '' @ event_error @ ''. Please try again.'') s)"

definition onend :: "js_error option \<Rightarrow> app_state \<Rightarrow> unit completion" where
  "onend stop_raises s = stopListening stop_raises s"


section \<open>The AI client\<close>

record request_body =
  body_model :: string
  messages :: "turn list"
  temperature :: jsval
  max_tokens :: jsval

record request =
  url :: string
  http_method :: string
  headers :: "(string \<times> string) list"
  body :: request_body

text \<open>
  What the network gives back: \<^verbatim>\<open>fetch\<close> rejects, or resolves to a response, of which
  the script reads \<^verbatim>\<open>ok\<close> and \<^verbatim>\<open>json()\<close> (which rejects when the body is not JSON).
\<close>

record response =
  ok :: bool
  json :: "js_error + jsval"

type_synonym fetch_outcome = "js_error + response"

definition fetch_request :: "config \<Rightarrow> turn list \<Rightarrow> request" where
  "fetch_request cfg msgs =
     \<lparr>url = apiEndpoint cfg,
      http_method = ''POST'',
      headers = [(''Content-Type'', ''application/json''),
                 (''Authorization'', ''Bearer '' @ apiKey cfg)],
      body = \<lparr>body_model = model cfg, messages = msgs,
               temperature = JNum ''0.7'', max_tokens = JNum ''2000''\<rparr>\<rparr>"

text \<open>\<^verbatim>\<open>error.error?.message || 'API request failed'\<close>\<close>

definition api_error_message :: "jsval \<Rightarrow> js_error + jsval" where
  "api_error_message error =
     bind_err (get_prop ''error'' error) (\<lambda>e.
     bind_err (if e = JUndefined \<or> e = JNull then Inr JUndefined else get_prop ''message'' e)
       (\<lambda>m. Inr (if truthy m then m else JStr ''API request failed'')))"

text \<open>\<^verbatim>\<open>data.choices[0].message.content\<close>\<close>

definition choices_0_message_content :: "jsval \<Rightarrow> js_error + jsval" where
  "choices_0_message_content data =
     bind_err (get_prop ''choices'' data) (\<lambda>choices.
     bind_err (get_first choices) (\<lambda>choice.
     bind_err (get_prop ''message'' choice) (\<lambda>msg.
     get_prop ''content'' msg)))"

text \<open>
  \<^verbatim>\<open>callAI\<close> is asynchronous. It runs to its first \<^verbatim>\<open>await\<close>, the call of \<^verbatim>\<open>fetch\<close>
  (\<open>callAI_begin\<close>), or returns before it; when the request has settled it runs to its
  end (\<open>callAI_resume\<close>). The two awaits of the \<^verbatim>\<open>try\<close> block, of \<^verbatim>\<open>fetch\<close> and of
  \<^verbatim>\<open>response.json()\<close>, are taken as one: the block changes nothing between them.
\<close>

datatype callAI_step =
    Returned "js_error + jsval" app_state
  | Awaiting request app_state

definition callAI_begin :: "config \<Rightarrow> case_mapping \<Rightarrow> string \<Rightarrow> app_state \<Rightarrow> callAI_step" where
  "callAI_begin cfg lc userMessage s =
     (let s1 = s\<lparr>conversationHistory :=
                   conversationHistory s @ [\<lparr>role = ''user'', content = JStr userMessage\<rparr>]\<rparr>;
          msgs = \<lparr>role = ''system'', content = JStr SYSTEM_PROMPT\<rparr> # conversationHistory s1
      in if useMockAI cfg \<or> apiKey cfg = []
         then Returned (Inr (JStr (getMockAIResponse lc userMessage))) s1
         else Awaiting (fetch_request cfg msgs)
                ((updateStatus ''Thinking...'' s1)\<lparr>isLoading := True\<rparr>))"

text \<open>The \<^verbatim>\<open>try\<close> block from the point where the request has settled.\<close>

definition callAI_try :: "fetch_outcome \<Rightarrow> app_state \<Rightarrow> jsval completion" where
  "callAI_try outcome s =
     (case outcome of
        Inl e \<Rightarrow> (Inl e, s)
      | Inr response \<Rightarrow>
          if \<not> ok response then
            (case bind_err (json response) api_error_message of
               Inl e \<Rightarrow> (Inl e, s)
             | Inr m \<Rightarrow> (Inl (Error (ToString m)), s))
          else
            (case bind_err (json response) choices_0_message_content of
               Inl e \<Rightarrow> (Inl e, s)
             | Inr aiResponse \<Rightarrow>
                 (Inr aiResponse,
                  s\<lparr>conversationHistory :=
                      conversationHistory s @
                        [\<lparr>role = ''assistant'', content = aiResponse\<rparr>]\<rparr>)))"

definition callAI_catch ::
  "config \<Rightarrow> case_mapping \<Rightarrow> string \<Rightarrow> js_error \<Rightarrow> app_state \<Rightarrow> jsval completion" where
  "callAI_catch cfg lc userMessage error s =
     (if \<not> useMockAI cfg
      then (Inr (JStr (getMockAIResponse lc userMessage)),
            updateStatus ''API error. Using fallback mode.'' s)
      else (Inl error, s))"

definition callAI_finally :: "app_state \<Rightarrow> app_state" where
  "callAI_finally s = updateStatus [] (s\<lparr>isLoading := False\<rparr>)"

definition callAI_resume ::
  "config \<Rightarrow> case_mapping \<Rightarrow> string \<Rightarrow> fetch_outcome \<Rightarrow> app_state \<Rightarrow> jsval completion" where
  "callAI_resume cfg lc userMessage outcome s =
     try_finally (try_catch (callAI_try outcome s) (callAI_catch cfg lc userMessage))
       callAI_finally"

text \<open>The whole call, \<open>outcome\<close> being how the request settles if one is sent.\<close>

definition callAI ::
  "config \<Rightarrow> case_mapping \<Rightarrow> fetch_outcome \<Rightarrow> string \<Rightarrow> app_state \<Rightarrow> jsval completion" where
  "callAI cfg lc outcome userMessage s =
     (case callAI_begin cfg lc userMessage s of
        Returned r s1 \<Rightarrow> (r, s1)
      | Awaiting req s1 \<Rightarrow> callAI_resume cfg lc userMessage outcome s1)"


section \<open>The submission controller\<close>

definition apology :: string where
  "apology =
     ''I apologize, but I encountered an error. '' @
     ''Please try again or check your API configuration.''"

text \<open>The \<^verbatim>\<open>catch\<close> branch of \<^verbatim>\<open>handleSubmit\<close>.\<close>

definition handleSubmit_catch :: "marked \<Rightarrow> js_error \<Rightarrow> app_state \<Rightarrow> unit completion" where
  "handleSubmit_catch mk error s =
     addMessage mk (JStr apology) False
       (updateStatus
          (''Error: '' @ message error @ ''. Please check your API configuration.'') s)"

text \<open>\<^verbatim>\<open>handleSubmit\<close> from the point where \<^verbatim>\<open>callAI\<close> has settled.\<close>

definition handleSubmit_finish :: "marked \<Rightarrow> jsval completion \<Rightarrow> unit completion" where
  "handleSubmit_finish mk called =
     try_catch
       (case called of
          (Inl e, s) \<Rightarrow> (Inl e, s)
        | (Inr aiResponse, s) \<Rightarrow> addMessage mk aiResponse False s)
       (handleSubmit_catch mk)"

datatype submit_step =
    Done "unit completion"
  | Pending request string app_state

definition handleSubmit_begin ::
  "config \<Rightarrow> marked \<Rightarrow> case_mapping \<Rightarrow> app_state \<Rightarrow> submit_step" where
  "handleSubmit_begin cfg mk lc s =
     (let userMessage = trim (textInput_value s) in
      if userMessage = []
      then Done (Inr (), updateStatus ''Please enter a message or use the microphone.'' s)
      else if isLoading s then Done (Inr (), s)
      else
        case addMessage mk (JStr userMessage) True s of
          (Inl e, s1) \<Rightarrow> Done (Inl e, s1)
        | (Inr u, s1) \<Rightarrow>
            (case callAI_begin cfg lc userMessage
                    (updateStatus [] (s1\<lparr>textInput_value := []\<rparr>)) of
               Returned r s2 \<Rightarrow> Done (handleSubmit_finish mk (r, s2))
             | Awaiting req s2 \<Rightarrow> Pending req userMessage s2))"

definition handleSubmit_resume ::
  "config \<Rightarrow> marked \<Rightarrow> case_mapping \<Rightarrow> string \<Rightarrow> fetch_outcome \<Rightarrow> app_state \<Rightarrow>
   unit completion" where
  "handleSubmit_resume cfg mk lc userMessage outcome s =
     handleSubmit_finish mk (callAI_resume cfg lc userMessage outcome s)"

text \<open>A submission run to its end, \<open>outcome\<close> being how its request settles if it sends one.\<close>

definition handleSubmit ::
  "config \<Rightarrow> marked \<Rightarrow> case_mapping \<Rightarrow> fetch_outcome \<Rightarrow> app_state \<Rightarrow> unit completion" where
  "handleSubmit cfg mk lc outcome s =
     (case handleSubmit_begin cfg mk lc s of
        Done r \<Rightarrow> r
      | Pending req userMessage s1 \<Rightarrow> handleSubmit_resume cfg mk lc userMessage outcome s1)"

text \<open>The user types \<open>txt\<close> and sends it; a list of such submissions, one after the other.\<close>

definition submit ::
  "config \<Rightarrow> marked \<Rightarrow> case_mapping \<Rightarrow> string \<times> fetch_outcome \<Rightarrow> app_state \<Rightarrow> app_state" where
  "submit cfg mk lc input s =
     snd (handleSubmit cfg mk lc (snd input) (s\<lparr>textInput_value := fst input\<rparr>))"

fun submit_all ::
  "config \<Rightarrow> marked \<Rightarrow> case_mapping \<Rightarrow> (string \<times> fetch_outcome) list \<Rightarrow> app_state \<Rightarrow>
   app_state" where
  "submit_all cfg mk lc [] s = s"
| "submit_all cfg mk lc (input # inputs) s =
     submit_all cfg mk lc inputs (submit cfg mk lc input s)"


section \<open>The running page\<close>

text \<open>
  The page while it runs: the \<^verbatim>\<open>CONFIG\<close> object, the key kept in \<^verbatim>\<open>localStorage\<close>, the
  state, and the request that is in flight, if any, with the message its \<^verbatim>\<open>callAI\<close>
  was called with.
\<close>

record system =
  sys_config :: config
  localStorage_key :: "string option"
  app :: app_state
  inflight :: "(request \<times> string) option"

text \<open>The state object as the script creates it, on a page \<open>page\<close>.\<close>

definition state_at_load :: "app_state \<Rightarrow> app_state" where
  "state_at_load page =
     page\<lparr>isListening := False, recognition := None, conversationHistory := [],
          isLoading := False, timers := 0\<rparr>"

definition system_at_load :: "string option \<Rightarrow> app_state \<Rightarrow> system" where
  "system_at_load stored page =
     \<lparr>sys_config = CONFIG stored, localStorage_key = stored,
      app = state_at_load page, inflight = None\<rparr>"

definition use_mock_mode :: "system \<Rightarrow> system" where
  "use_mock_mode sys =
     sys\<lparr>sys_config := (sys_config sys)\<lparr>useMockAI := True\<rparr>,
         app := updateStatus ''Using mock mode. Set an API key for full functionality.''
                  (app sys)\<rparr>"

text \<open>\<open>answer\<close>: what \<^verbatim>\<open>prompt\<close> returns, \<open>None\<close> when the user cancels it.\<close>

definition checkConfiguration :: "string option \<Rightarrow> system \<Rightarrow> system" where
  "checkConfiguration answer sys =
     (if apiKey (sys_config sys) = [] \<and> \<not> useMockAI (sys_config sys) then
        (case answer of
           None \<Rightarrow> use_mock_mode sys
         | Some k \<Rightarrow>
             if k \<noteq> [] \<and> trim k \<noteq> [] then
               sys\<lparr>sys_config := (sys_config sys)\<lparr>apiKey := trim k\<rparr>,
                   localStorage_key := Some (trim k),
                   app := updateStatus ''API key saved. Ready to use!'' (app sys)\<rparr>
             else use_mock_mode sys)
      else if apiKey (sys_config sys) \<noteq> [] then
        sys\<lparr>app := updateStatus ''Ready! Click the microphone or type your message.''
                    (app sys)\<rparr>
      else
        sys\<lparr>app := updateStatus ''Using mock mode. Set an API key for full functionality.''
                    (app sys)\<rparr>)"

definition init :: "bool \<Rightarrow> string option \<Rightarrow> system \<Rightarrow> system" where
  "init supported answer sys =
     checkConfiguration answer (sys\<lparr>app := initSpeechRecognition supported (app sys)\<rparr>)"

text \<open>
  What can happen to the page once \<^verbatim>\<open>init\<close> has run: the listeners of
  \<^verbatim>\<open>initEventListeners\<close>, the handlers of the recognizer, the request settling, a
  status timer expiring, and the user editing the input field.
\<close>

datatype event =
    MicClick "js_error option"
  | InputFocus "js_error option"
  | InputEdited string
  | SendRequested
  | FetchSettled fetch_outcome
  | SpeechResult string
  | SpeechError string "js_error option"
  | SpeechEnd "js_error option"
  | TimerExpired

text \<open>An error that leaves a listener is reported by the browser and changes nothing else.\<close>

definition after :: "system \<Rightarrow> unit completion \<Rightarrow> system" where
  "after sys c = sys\<lparr>app := snd c\<rparr>"

fun dispatch :: "marked \<Rightarrow> case_mapping \<Rightarrow> event \<Rightarrow> system \<Rightarrow> system" where
  "dispatch mk lc (MicClick raises) sys =
     after sys (if isListening (app sys) then stopListening raises (app sys)
                else startListening raises (app sys))"
| "dispatch mk lc (InputFocus raises) sys =
     (if isListening (app sys) then after sys (stopListening raises (app sys)) else sys)"
| "dispatch mk lc (InputEdited txt) sys = sys\<lparr>app := (app sys)\<lparr>textInput_value := txt\<rparr>\<rparr>"
| "dispatch mk lc SendRequested sys =
     (case handleSubmit_begin (sys_config sys) mk lc (app sys) of
        Done c \<Rightarrow> after sys c
      | Pending req userMessage s \<Rightarrow> sys\<lparr>app := s, inflight := Some (req, userMessage)\<rparr>)"
| "dispatch mk lc (FetchSettled outcome) sys =
     (case inflight sys of
        None \<Rightarrow> sys
      | Some (req, userMessage) \<Rightarrow>
          (after sys (handleSubmit_resume (sys_config sys) mk lc userMessage outcome (app sys)))
            \<lparr>inflight := None\<rparr>)"
| "dispatch mk lc (SpeechResult transcript) sys =
     (if recognition (app sys) = None then sys
      else sys\<lparr>app := onresult transcript (app sys)\<rparr>)"
| "dispatch mk lc (SpeechError event_error raises) sys =
     (if recognition (app sys) = None then sys
      else after sys (onerror event_error raises (app sys)))"
| "dispatch mk lc (SpeechEnd raises) sys =
     (if recognition (app sys) = None then sys else after sys (onend raises (app sys)))"
| "dispatch mk lc TimerExpired sys =
     (if timers (app sys) = 0 then sys
      else sys\<lparr>app := status_expiry ((app sys)\<lparr>timers := timers (app sys) - 1\<rparr>)\<rparr>)"

inductive reachable :: "marked \<Rightarrow> case_mapping \<Rightarrow> system \<Rightarrow> bool"
  for mk :: marked and lc :: case_mapping where
  loaded: "reachable mk lc (init supported answer (system_at_load stored page))"
| event: "reachable mk lc sys \<Longrightarrow> reachable mk lc (dispatch mk lc ev sys)"

text \<open>
  A request has failed when \<^verbatim>\<open>fetch\<close> rejects, when the status is not a success, or when
  the body of a success cannot be parsed or \<^verbatim>\<open>choices[0].message.content\<close> cannot be read
  from it: the cases in which the \<^verbatim>\<open>try\<close> block of \<^verbatim>\<open>callAI\<close> raises.
\<close>

definition request_failed :: "fetch_outcome \<Rightarrow> bool" where
  "request_failed outcome =
     (case outcome of
        Inl e \<Rightarrow> True
      | Inr response \<Rightarrow>
          \<not> ok response \<or> isl (bind_err (json response) choices_0_message_content))"

text \<open>A list of events, dispatched in order.\<close>

definition run_events :: "marked \<Rightarrow> case_mapping \<Rightarrow> event list \<Rightarrow> system \<Rightarrow> system" where
  "run_events mk lc evs sys = foldl (\<lambda>s ev. dispatch mk lc ev s) sys evs"

text \<open>The state in which an accepted submission calls \<^verbatim>\<open>callAI\<close>: its text is shown as a
  user message, the input field and the status line are cleared.\<close>

definition cleared :: "marked \<Rightarrow> app_state \<Rightarrow> app_state" where
  "cleared mk s =
     updateStatus []
       ((snd (addMessage mk (JStr (trim (textInput_value s))) True s))\<lparr>textInput_value := []\<rparr>)"

text \<open>
  What every reachable page satisfies: the page listens only if it has a recognizer; it is
  busy exactly while a request is in flight; and a request is in flight only if mock mode is
  off and a key is set.
\<close>

definition speech_ok :: "app_state \<Rightarrow> bool" where
  "speech_ok s = (isListening s \<longrightarrow> recognition s \<noteq> None)"

definition invariant :: "system \<Rightarrow> bool" where
  "invariant sys =
     (speech_ok (app sys)
      \<and> (isLoading (app sys) \<longleftrightarrow> inflight sys \<noteq> None)
      \<and> (inflight sys \<noteq> None \<longrightarrow>
           \<not> useMockAI (sys_config sys) \<and> apiKey (sys_config sys) \<noteq> []))"


section \<open>Concrete pages and answers\<close>

text \<open>A case mapping that leaves every text as it is. The texts of the examples below
  are ASCII, so the platform's mapping of other texts plays no part in them.\<close>

definition unchanged :: case_mapping where
  "unchanged s = s"

text \<open>A page on which nothing has happened yet.\<close>

definition example_page :: app_state where
  "example_page =
     \<lparr>isListening = False, recognition = None, conversationHistory = [], isLoading = False,
      micButton_hidden = False, micButton_listening = False, textInput_value = [],
      conversation = [], welcomeMessage_hidden = False, status_textContent = [],
      status_active = False, timers = 0\<rparr>"

text \<open>A browser with speech recognition and no stored key; the user has clicked the
  microphone button once.\<close>

definition example_listening :: system where
  "example_listening =
     run_events NoMarked unchanged [MicClick None] (init True None (system_at_load None example_page))"

text \<open>A stored key; the user has sent \<open>hello\<close>, the request is in flight, and the user has
  typed two blanks into the input field.\<close>

definition example_busy :: system where
  "example_busy =
     run_events NoMarked unchanged [InputEdited ''hello'', SendRequested, InputEdited ''  '']
       (init False None (system_at_load (Some ''sk-test'') example_page))"

text \<open>A stored key; the first request fails in the network, then the user sends a second
  message.\<close>

definition example_second_request :: system where
  "example_second_request =
     run_events NoMarked unchanged
       [InputEdited ''first'', SendRequested, FetchSettled (Inl (TypeError ''Failed to fetch'')),
        InputEdited ''second'', SendRequested]
       (init False None (system_at_load (Some ''sk-test'') example_page))"

text \<open>A success whose body is \<^verbatim>\<open>{"choices":[{"message":{}}]}\<close>, one whose body is
  \<^verbatim>\<open>{"choices":[{"message":{"content":null}}]}\<close>, and an error response.\<close>

definition example_no_content :: fetch_outcome where
  "example_no_content =
     Inr \<lparr>ok = True,
          json = Inr (JObj [(''choices'', JArr [JObj [(''message'', JObj [])]])])\<rparr>"

definition example_null_content :: fetch_outcome where
  "example_null_content =
     Inr \<lparr>ok = True,
          json = Inr (JObj [(''choices'',
                   JArr [JObj [(''message'', JObj [(''content'', JNull)])]])])\<rparr>"

definition example_rate_limited :: fetch_outcome where
  "example_rate_limited =
     Inr \<lparr>ok = False,
          json = Inr (JObj [(''error'', JObj [(''message'', JStr ''Rate limit'')])])\<rparr>"

text \<open>A renderer with a \<^verbatim>\<open>parse\<close> function that accepts strings only and raises on any
  other argument.\<close>

definition strict_marked :: marked where
  "strict_marked =
     MarkedParse (\<lambda>v. case v of
         JStr s \<Rightarrow> Inr s
       | _ \<Rightarrow> Inl (Error ''marked(): input parameter is undefined or null''))"


section \<open>Strings and canned answers\<close>




text \<open>The characters of a string are not empty and make up the string.\<close>

lemma concat_chars [simp]: "concat (chars s) = s"
  by (induction s) (auto split: list.splits)

lemma chars_nonempty: "[] \<notin> set (chars s)"
  by (induction s) (auto split: list.splits)

lemma dropWhile_all: "(\<forall>x\<in>set (dropWhile P s). P x) \<longleftrightarrow> (\<forall>x\<in>set s. P x)"
  by (induction s) auto

lemma concat_empty_iff: "[] \<notin> set xs \<Longrightarrow> concat xs = [] \<longleftrightarrow> xs = []"
  by (cases xs) auto

text \<open>\<^verbatim>\<open>trim\<close> leaves nothing exactly of the strings whose characters are all white space.\<close>

lemma trim_empty_iff: "trim s = [] \<longleftrightarrow> (\<forall>ch\<in>set (chars s). isWhiteSpace ch)"
proof -
  let ?r = "rev (dropWhile isWhiteSpace (rev (dropWhile isWhiteSpace (chars s))))"
  have "set ?r \<subseteq> set (chars s)"
    by (auto dest!: set_dropWhileD)
  then have ne: "[] \<notin> set ?r"
    using chars_nonempty[of s] by blast
  have "trim s = [] \<longleftrightarrow> ?r = []"
    unfolding trim_def by (rule concat_empty_iff[OF ne])
  also have "\<dots> \<longleftrightarrow> (\<forall>ch\<in>set (chars s). isWhiteSpace ch)"
    by (simp add: dropWhile_eq_Nil_conv dropWhile_all)
  finally show ?thesis .
qed

lemmas trim_eval = trim_def isWhiteSpace_def whiteSpace_def is_continuation_def

lemmas lower_eval = toLowerCase_def is_ascii_def toLowerChar_def

lemma trim_examples:
  "trim ''hello'' = ''hello''" "trim '' meal plan '' = ''meal plan''"
  "trim ''again'' = ''again''" "trim ''  '' = []"
  by (simp_all add: trim_eval)

text \<open>A no-break space, an ideographic space and a line separator around a word.\<close>

lemma trim_unicode_example:
  "trim ([CHR 0xC2, CHR 0xA0, CHR 0xE3, CHR 0x80, CHR 0x80] @ ''hi'' @
         [CHR 0xE2, CHR 0x80, CHR 0xA8]) = ''hi''"
  by (simp add: trim_eval)


lemma getMock_cases:
  "getMockAIResponse lc m \<in> {template_child, template_general, template_default}"
  by (simp add: getMockAIResponse_def Let_def)

lemma templates_nonempty:
  "template_child \<noteq> []" "template_general \<noteq> []" "template_default \<noteq> []"
  by (simp_all add: template_child_def template_general_def template_default_def)


lemma getMock_nonempty: "getMockAIResponse lc m \<noteq> []"
  using getMock_cases[of lc m] templates_nonempty by auto


lemma getMock_hello: "getMockAIResponse lc ''hello'' = template_default"
  by (simp add: getMockAIResponse_def lower_eval)

lemma getMock_first: "getMockAIResponse lc ''first'' = template_default"
  by (simp add: getMockAIResponse_def lower_eval)

lemma getMock_kid:
  "getMockAIResponse lc ''I want meal prep for my kid'' = template_child"
  by (simp add: getMockAIResponse_def lower_eval)

text \<open>A message that spells \<open>kid\<close> with the Kelvin sign U+212A, which Unicode lower-cases
  to \<open>k\<close>: on a platform whose case mapping does so, the answer is the one for a child.\<close>

lemma getMock_kelvin:
  assumes "lc (''meal for my '' @ [CHR 0xE2, CHR 0x84, CHR 0xAA] @ ''id'') = ''meal for my kid''"
  shows "getMockAIResponse lc (''meal for my '' @ [CHR 0xE2, CHR 0x84, CHR 0xAA] @ ''id'') =
           template_child"
proof -
  have "toLowerCase lc (''meal for my '' @ [CHR 0xE2, CHR 0x84, CHR 0xAA] @ ''id'') =
          ''meal for my kid''"
    using assms by (simp add: toLowerCase_def is_ascii_def)
  then show ?thesis
    by (simp add: getMockAIResponse_def)
qed


section \<open>What each function leaves unchanged\<close>

lemma updateStatus_frame [simp]:
  "isListening (updateStatus m s) = isListening s"
  "recognition (updateStatus m s) = recognition s"
  "conversationHistory (updateStatus m s) = conversationHistory s"
  "isLoading (updateStatus m s) = isLoading s"
  "micButton_hidden (updateStatus m s) = micButton_hidden s"
  "micButton_listening (updateStatus m s) = micButton_listening s"
  "textInput_value (updateStatus m s) = textInput_value s"
  "conversation (updateStatus m s) = conversation s"
  "welcomeMessage_hidden (updateStatus m s) = welcomeMessage_hidden s"
  "status_textContent (updateStatus m s) = m"
  by (simp_all add: updateStatus_def Let_def)

lemma addMessage_frame [simp]:
  "isListening (snd (addMessage mk t u s)) = isListening s"
  "recognition (snd (addMessage mk t u s)) = recognition s"
  "conversationHistory (snd (addMessage mk t u s)) = conversationHistory s"
  "isLoading (snd (addMessage mk t u s)) = isLoading s"
  "textInput_value (snd (addMessage mk t u s)) = textInput_value s"
  "status_textContent (snd (addMessage mk t u s)) = status_textContent s"
  "timers (snd (addMessage mk t u s)) = timers s"
  by (simp_all add: addMessage_def Let_def split: sum.splits)

lemma addMessage_user: "fst (addMessage mk t True s) = Inr ()"
  by (simp add: addMessage_def render_def Let_def)

lemma cleared_frame [simp]:
  "isListening (cleared mk s) = isListening s"
  "recognition (cleared mk s) = recognition s"
  "conversationHistory (cleared mk s) = conversationHistory s"
  "isLoading (cleared mk s) = isLoading s"
  by (simp_all add: cleared_def)

lemma callAI_finally_frame [simp]:
  "isLoading (callAI_finally s) = False"
  "conversationHistory (callAI_finally s) = conversationHistory s"
  "isListening (callAI_finally s) = isListening s"
  "recognition (callAI_finally s) = recognition s"
  by (simp_all add: callAI_finally_def)

lemma stopListening_frame [simp]:
  "recognition (snd (stopListening r s)) = recognition s"
  "conversationHistory (snd (stopListening r s)) = conversationHistory s"
  "isLoading (snd (stopListening r s)) = isLoading s"
  by (simp_all add: stopListening_def try_catch_def platform_call_def split: option.splits)

lemma stopListening_result: "fst (stopListening r s) = Inr ()"
  by (simp add: stopListening_def try_catch_def platform_call_def split: option.splits)

lemma stopListening_off: "speech_ok s \<Longrightarrow> \<not> isListening (snd (stopListening r s))"
  by (auto simp: speech_ok_def stopListening_def try_catch_def platform_call_def
      split: option.splits)

lemma stopListening_idle: "\<not> isListening s \<Longrightarrow> stopListening r s = (Inr (), s)"
  by (simp add: stopListening_def)

lemma startListening_frame [simp]:
  "recognition (snd (startListening r s)) = recognition s"
  "conversationHistory (snd (startListening r s)) = conversationHistory s"
  "isLoading (snd (startListening r s)) = isLoading s"
  by (simp_all add: startListening_def try_catch_def platform_call_def split: option.splits)

lemma startListening_speech_ok: "speech_ok s \<Longrightarrow> speech_ok (snd (startListening r s))"
  by (auto simp: speech_ok_def startListening_def try_catch_def platform_call_def
      split: option.splits)

lemma speech_ok_off: "\<not> isListening s \<Longrightarrow> speech_ok s"
  by (simp add: speech_ok_def)

lemma handleSubmit_finish_frame [simp]:
  "isListening (snd (handleSubmit_finish mk (r, s))) = isListening s"
  "recognition (snd (handleSubmit_finish mk (r, s))) = recognition s"
  "conversationHistory (snd (handleSubmit_finish mk (r, s))) = conversationHistory s"
  "isLoading (snd (handleSubmit_finish mk (r, s))) = isLoading s"
  by (auto simp: handleSubmit_finish_def handleSubmit_catch_def try_catch_def
      split: sum.splits prod.splits
      dest: arg_cong[where f = "\<lambda>c. isListening (snd c)"]
            arg_cong[where f = "\<lambda>c. recognition (snd c)"]
            arg_cong[where f = "\<lambda>c. conversationHistory (snd c)"]
            arg_cong[where f = "\<lambda>c. isLoading (snd c)"])


section \<open>The two ways through \<^verbatim>\<open>callAI\<close>\<close>

lemma callAI_begin_mock:
  "useMockAI cfg \<or> apiKey cfg = [] \<Longrightarrow>
   callAI_begin cfg lc m s =
     Returned (Inr (JStr (getMockAIResponse lc m)))
       (s\<lparr>conversationHistory :=
            conversationHistory s @ [\<lparr>role = ''user'', content = JStr m\<rparr>]\<rparr>)"
  by (simp add: callAI_begin_def Let_def)

lemma callAI_begin_api:
  "\<not> useMockAI cfg \<Longrightarrow> apiKey cfg \<noteq> [] \<Longrightarrow>
   callAI_begin cfg lc m s =
     Awaiting
       (fetch_request cfg
          (\<lparr>role = ''system'', content = JStr SYSTEM_PROMPT\<rparr> #
           conversationHistory s @ [\<lparr>role = ''user'', content = JStr m\<rparr>]))
       ((updateStatus ''Thinking...''
          (s\<lparr>conversationHistory :=
               conversationHistory s @ [\<lparr>role = ''user'', content = JStr m\<rparr>]\<rparr>))
        \<lparr>isLoading := True\<rparr>)"
  by (simp add: callAI_begin_def Let_def)

text \<open>The request that is sent carries the system prompt and then the whole transcript,
  the new user turn last.\<close>

lemma callAI_begin_request:
  assumes "callAI_begin cfg lc m s = Awaiting req s'"
  shows "messages (body req) =
           \<lparr>role = ''system'', content = JStr SYSTEM_PROMPT\<rparr> #
           conversationHistory s @ [\<lparr>role = ''user'', content = JStr m\<rparr>]"
    and "conversationHistory s' =
           conversationHistory s @ [\<lparr>role = ''user'', content = JStr m\<rparr>]"
  using assms
  by (auto simp: callAI_begin_def Let_def fetch_request_def split: if_splits)

lemma callAI_begin_frame:
  "callAI_begin cfg lc m s = Returned r s' \<Longrightarrow>
     (useMockAI cfg \<or> apiKey cfg = []) \<and> isListening s' = isListening s
     \<and> recognition s' = recognition s \<and> isLoading s' = isLoading s"
  "callAI_begin cfg lc m s = Awaiting req s' \<Longrightarrow>
     \<not> useMockAI cfg \<and> apiKey cfg \<noteq> [] \<and> isListening s' = isListening s
     \<and> recognition s' = recognition s \<and> isLoading s'"
  by (auto simp: callAI_begin_def Let_def split: if_splits)

lemma callAI_try_failed: "request_failed out \<Longrightarrow> \<exists>e. callAI_try out s = (Inl e, s)"
  by (auto simp: request_failed_def callAI_try_def split: sum.splits)

lemma callAI_try_ok:
  "\<not> request_failed out \<Longrightarrow>
   \<exists>v. callAI_try out s =
     (Inr v,
      s\<lparr>conversationHistory :=
          conversationHistory s @ [\<lparr>role = ''assistant'', content = v\<rparr>]\<rparr>)"
  by (auto simp: request_failed_def callAI_try_def split: sum.splits)

lemma callAI_resume_failed:
  "request_failed out \<Longrightarrow> \<not> useMockAI cfg \<Longrightarrow>
   callAI_resume cfg lc m out s =
     (Inr (JStr (getMockAIResponse lc m)),
      callAI_finally (updateStatus ''API error. Using fallback mode.'' s))"
  using callAI_try_failed[of out s]
  by (auto simp: callAI_resume_def try_catch_def try_finally_def callAI_catch_def)

lemma callAI_resume_ok:
  "\<not> request_failed out \<Longrightarrow>
   \<exists>v. callAI_resume cfg lc m out s =
     (Inr v,
      callAI_finally
        (s\<lparr>conversationHistory :=
            conversationHistory s @ [\<lparr>role = ''assistant'', content = v\<rparr>]\<rparr>))"
  using callAI_try_ok[of out s]
  by (auto simp: callAI_resume_def try_catch_def try_finally_def)

lemma callAI_resume_no_error:
  "\<not> useMockAI cfg \<Longrightarrow> \<exists>v s'. callAI_resume cfg lc m out s = (Inr v, s')"
  using callAI_resume_failed[of out cfg lc m s] callAI_resume_ok[of out cfg lc m s] by blast

lemma callAI_no_error: "\<exists>v s'. callAI cfg lc out m s = (Inr v, s')"
proof (cases "useMockAI cfg \<or> apiKey cfg = []")
  case True
  then show ?thesis by (simp add: callAI_def callAI_begin_mock)
next
  case False
  then show ?thesis
    using callAI_resume_no_error[of cfg] by (simp add: callAI_def callAI_begin_api)
qed

lemma callAI_resume_frame:
  "isListening (snd (callAI_resume cfg lc m out s)) = isListening s"
  "recognition (snd (callAI_resume cfg lc m out s)) = recognition s"
  "isLoading (snd (callAI_resume cfg lc m out s)) = False"
  by (auto simp: callAI_resume_def try_finally_def try_catch_def callAI_try_def
      callAI_catch_def split: prod.splits sum.splits if_splits)

lemma callAI_fallback:
  assumes "useMockAI cfg \<or> apiKey cfg = [] \<or> request_failed outcome"
  shows "fst (callAI cfg lc outcome m s) = Inr (JStr (getMockAIResponse lc m))"
    and "conversationHistory (snd (callAI cfg lc outcome m s)) =
           conversationHistory s @ [\<lparr>role = ''user'', content = JStr m\<rparr>]"
    and "\<not> isLoading s \<Longrightarrow> \<not> isLoading (snd (callAI cfg lc outcome m s))"
proof -
  consider (mock) "useMockAI cfg \<or> apiKey cfg = []"
    | (api) "\<not> useMockAI cfg" "apiKey cfg \<noteq> []" "request_failed outcome"
    using assms by blast
  then have "fst (callAI cfg lc outcome m s) = Inr (JStr (getMockAIResponse lc m))
     \<and> conversationHistory (snd (callAI cfg lc outcome m s)) =
           conversationHistory s @ [\<lparr>role = ''user'', content = JStr m\<rparr>]
     \<and> (\<not> isLoading s \<longrightarrow> \<not> isLoading (snd (callAI cfg lc outcome m s)))"
  proof cases
    case mock
    then show ?thesis by (simp add: callAI_def callAI_begin_mock)
  next
    case api
    then show ?thesis by (simp add: callAI_def callAI_begin_api callAI_resume_failed)
  qed
  then show "fst (callAI cfg lc outcome m s) = Inr (JStr (getMockAIResponse lc m))"
    and "conversationHistory (snd (callAI cfg lc outcome m s)) =
           conversationHistory s @ [\<lparr>role = ''user'', content = JStr m\<rparr>]"
    and "\<not> isLoading s \<Longrightarrow> \<not> isLoading (snd (callAI cfg lc outcome m s))"
    by simp_all
qed


section \<open>The three ways through \<^verbatim>\<open>handleSubmit\<close>\<close>

lemma handleSubmit_begin_empty:
  "trim (textInput_value s) = [] \<Longrightarrow>
   handleSubmit_begin cfg mk lc s =
     Done (Inr (), updateStatus ''Please enter a message or use the microphone.'' s)"
  by (simp add: handleSubmit_begin_def)

lemma handleSubmit_begin_busy:
  "trim (textInput_value s) \<noteq> [] \<Longrightarrow> isLoading s \<Longrightarrow>
   handleSubmit_begin cfg mk lc s = Done (Inr (), s)"
  by (simp add: handleSubmit_begin_def)

lemma handleSubmit_begin_accepted:
  assumes "trim (textInput_value s) \<noteq> []" "\<not> isLoading s"
  shows "handleSubmit_begin cfg mk lc s =
     (case callAI_begin cfg lc (trim (textInput_value s)) (cleared mk s) of
        Returned r s2 \<Rightarrow> Done (handleSubmit_finish mk (r, s2))
      | Awaiting req s2 \<Rightarrow> Pending req (trim (textInput_value s)) s2)"
proof -
  obtain s1 where a: "addMessage mk (JStr (trim (textInput_value s))) True s = (Inr (), s1)"
    using addMessage_user[of mk "JStr (trim (textInput_value s))" s]
    by (cases "addMessage mk (JStr (trim (textInput_value s))) True s") simp
  show ?thesis
    using assms by (simp add: handleSubmit_begin_def cleared_def a Let_def)
qed

lemma handleSubmit_begin_Done:
  assumes "handleSubmit_begin cfg mk lc s = Done c"
  shows "isListening (snd c) = isListening s \<and> recognition (snd c) = recognition s
     \<and> isLoading (snd c) = isLoading s"
proof (cases "trim (textInput_value s) = []")
  case True
  with assms show ?thesis by (auto simp: handleSubmit_begin_empty)
next
  case False
  show ?thesis
  proof (cases "isLoading s")
    case True
    with False assms show ?thesis by (auto simp: handleSubmit_begin_busy)
  next
    case idle: False
    from assms False idle show ?thesis
      by (auto simp: handleSubmit_begin_accepted split: callAI_step.splits
          dest!: callAI_begin_frame(1))
  qed
qed

lemma handleSubmit_begin_Pending:
  assumes "handleSubmit_begin cfg mk lc s = Pending req um s'"
  shows "\<not> useMockAI cfg \<and> apiKey cfg \<noteq> [] \<and> \<not> isLoading s \<and> isLoading s'
     \<and> isListening s' = isListening s \<and> recognition s' = recognition s"
proof -
  have ne: "trim (textInput_value s) \<noteq> []"
    using assms by (auto simp: handleSubmit_begin_empty)
  have idle: "\<not> isLoading s"
    using assms ne by (auto simp: handleSubmit_begin_busy)
  from assms ne idle show ?thesis
    by (auto simp: handleSubmit_begin_accepted split: callAI_step.splits
        dest!: callAI_begin_frame(2))
qed

lemma handleSubmit_resume_frame:
  "isListening (snd (handleSubmit_resume cfg mk lc m out s)) = isListening s"
  "recognition (snd (handleSubmit_resume cfg mk lc m out s)) = recognition s"
  "isLoading (snd (handleSubmit_resume cfg mk lc m out s)) = False"
  unfolding handleSubmit_resume_def
  by (cases "callAI_resume cfg lc m out s"; use callAI_resume_frame[of cfg lc m out s] in simp)+

text \<open>An accepted submission in mock mode adds the user turn and nothing else.\<close>

lemma submit_mock:
  assumes "useMockAI cfg \<or> apiKey cfg = []" "\<not> isLoading s" "trim (fst input) \<noteq> []"
  shows "conversationHistory (submit cfg mk lc input s) =
           conversationHistory s @ [\<lparr>role = ''user'', content = JStr (trim (fst input))\<rparr>]"
    and "\<not> isLoading (submit cfg mk lc input s)"
  using assms
  by (simp_all add: submit_def handleSubmit_def handleSubmit_begin_accepted callAI_begin_mock)

lemma submit_all_mock:
  assumes "useMockAI cfg \<or> apiKey cfg = []"
  shows "\<not> isLoading s \<Longrightarrow> \<forall>input\<in>set inputs. trim (fst input) \<noteq> [] \<Longrightarrow>
     conversationHistory (submit_all cfg mk lc inputs s) =
       conversationHistory s @
         map (\<lambda>input. \<lparr>role = ''user'', content = JStr (trim (fst input))\<rparr>) inputs"
proof (induction inputs arbitrary: s)
  case Nil
  then show ?case by simp
next
  case (Cons input inputs)
  have h: "conversationHistory (submit cfg mk lc input s) =
             conversationHistory s @ [\<lparr>role = ''user'', content = JStr (trim (fst input))\<rparr>]"
    and i: "\<not> isLoading (submit cfg mk lc input s)"
    using submit_mock[OF assms, of s input mk lc] Cons.prems by simp_all
  show ?case
    using Cons.IH[OF i] Cons.prems(2) h by simp
qed

text \<open>An accepted submission whose request fails adds the user turn and nothing else; one
  whose request succeeds adds the user turn and the assistant turn.\<close>

lemma submit_failed:
  assumes "\<not> useMockAI cfg" "apiKey cfg \<noteq> []" "request_failed (snd input)"
    "\<not> isLoading s" "trim (fst input) \<noteq> []"
  shows "conversationHistory (submit cfg mk lc input s) =
           conversationHistory s @ [\<lparr>role = ''user'', content = JStr (trim (fst input))\<rparr>]"
  using assms
  by (simp add: submit_def handleSubmit_def handleSubmit_begin_accepted callAI_begin_api
      handleSubmit_resume_def callAI_resume_failed)

lemma submit_answered:
  assumes "\<not> useMockAI cfg" "apiKey cfg \<noteq> []" "\<not> request_failed (snd input)"
    "\<not> isLoading s" "trim (fst input) \<noteq> []"
  shows "\<exists>v. conversationHistory (submit cfg mk lc input s) =
           conversationHistory s @
             [\<lparr>role = ''user'', content = JStr (trim (fst input))\<rparr>,
              \<lparr>role = ''assistant'', content = v\<rparr>]"
proof -
  let ?s1 = "(updateStatus ''Thinking...''
        ((cleared mk (s\<lparr>textInput_value := fst input\<rparr>))
           \<lparr>conversationHistory := conversationHistory s @
               [\<lparr>role = ''user'', content = JStr (trim (fst input))\<rparr>]\<rparr>))\<lparr>isLoading := True\<rparr>"
  obtain v where
    v: "callAI_resume cfg lc (trim (fst input)) (snd input) ?s1 =
          (Inr v, callAI_finally
             (?s1\<lparr>conversationHistory :=
                 conversationHistory ?s1 @ [\<lparr>role = ''assistant'', content = v\<rparr>]\<rparr>))"
    using callAI_resume_ok[OF assms(3), of cfg lc "trim (fst input)" ?s1] by blast
  have "conversationHistory (submit cfg mk lc input s) =
           conversationHistory s @
             [\<lparr>role = ''user'', content = JStr (trim (fst input))\<rparr>,
              \<lparr>role = ''assistant'', content = v\<rparr>]"
    using assms v
    by (simp add: submit_def handleSubmit_def handleSubmit_begin_accepted callAI_begin_api
        handleSubmit_resume_def)
  then show ?thesis by blast
qed


section \<open>The invariant of the running page\<close>

lemma invariant_loaded: "invariant (init supported answer (system_at_load stored page))"
  by (auto simp: invariant_def init_def checkConfiguration_def use_mock_mode_def
      system_at_load_def state_at_load_def initSpeechRecognition_def speech_ok_def
      split: option.splits)

lemma invariant_dispatch: "invariant sys \<Longrightarrow> invariant (dispatch mk lc ev sys)"
proof (cases ev)
  case (MicClick r)
  then show "invariant sys \<Longrightarrow> ?thesis"
    by (auto simp: invariant_def after_def startListening_speech_ok
        intro!: speech_ok_off stopListening_off)
next
  case (InputFocus r)
  then show "invariant sys \<Longrightarrow> ?thesis"
    by (auto simp: invariant_def after_def intro!: speech_ok_off stopListening_off)
next
  case (InputEdited t)
  then show "invariant sys \<Longrightarrow> ?thesis"
    by (auto simp: invariant_def speech_ok_def)
next
  case SendRequested
  then show "invariant sys \<Longrightarrow> ?thesis"
    by (auto simp: invariant_def after_def speech_ok_def
        split: submit_step.splits
        dest!: handleSubmit_begin_Done handleSubmit_begin_Pending)
next
  case (FetchSettled out)
  then show "invariant sys \<Longrightarrow> ?thesis"
    by (auto simp: invariant_def after_def speech_ok_def handleSubmit_resume_frame
        split: option.splits)
next
  case (SpeechResult t)
  then show "invariant sys \<Longrightarrow> ?thesis"
    by (auto simp: invariant_def speech_ok_def onresult_def)
next
  case (SpeechError e r)
  then show "invariant sys \<Longrightarrow> ?thesis"
    by (auto simp: invariant_def after_def onerror_def speech_ok_def
        intro!: stopListening_off[unfolded speech_ok_def])
next
  case (SpeechEnd r)
  then show "invariant sys \<Longrightarrow> ?thesis"
    by (auto simp: invariant_def after_def onend_def speech_ok_def
        intro!: stopListening_off[unfolded speech_ok_def])
next
  case TimerExpired
  then show "invariant sys \<Longrightarrow> ?thesis"
    by (auto simp: invariant_def speech_ok_def status_expiry_def)
qed

lemma reachable_invariant: "reachable mk lc sys \<Longrightarrow> invariant sys"
  by (induction rule: reachable.induct) (simp_all add: invariant_loaded invariant_dispatch)

lemma reachable_run_events: "reachable mk lc sys \<Longrightarrow> reachable mk lc (run_events mk lc evs sys)"
  unfolding run_events_def
  by (induction evs arbitrary: sys) (simp_all add: reachable.event)


section \<open>The concrete pages, evaluated\<close>

lemmas page_defs =
  example_page_def state_at_load_def system_at_load_def CONFIG_def init_def
  checkConfiguration_def use_mock_mode_def initSpeechRecognition_def run_events_def
  after_def updateStatus_def Let_def

lemmas speech_defs =
  startListening_def stopListening_def platform_call_def try_catch_def onresult_def
  onerror_def onend_def

lemmas submit_defs =
  handleSubmit_def handleSubmit_begin_def handleSubmit_resume_def handleSubmit_finish_def
  handleSubmit_catch_def addMessage_def render_def callAI_begin_def callAI_resume_def
  callAI_try_def callAI_catch_def callAI_finally_def try_catch_def try_finally_def
  bind_err_def fetch_request_def trim_eval

lemma example_listening_on: "isListening (app example_listening)"
  by (simp add: example_listening_def page_defs speech_defs)

lemma example_listening_reachable: "reachable NoMarked unchanged example_listening"
  unfolding example_listening_def by (rule reachable_run_events[OF reachable.loaded])

lemma example_busy_facts:
  "isLoading (app example_busy)"
  "status_textContent (app example_busy) = ''Thinking...''"
  "textInput_value (app example_busy) = ''  ''"
  by (simp_all add: example_busy_def page_defs submit_defs)

lemma example_busy_inflight:
  "inflight example_busy =
     Some (fetch_request (CONFIG (Some ''sk-test''))
             [\<lparr>role = ''system'', content = JStr SYSTEM_PROMPT\<rparr>,
              \<lparr>role = ''user'', content = JStr ''hello''\<rparr>], ''hello'')"
  by (simp add: example_busy_def page_defs submit_defs)

lemma example_busy_reachable: "reachable NoMarked unchanged example_busy"
  unfolding example_busy_def by (rule reachable_run_events[OF reachable.loaded])

lemma example_rate_limited_failed: "request_failed example_rate_limited"
  by (simp add: request_failed_def example_rate_limited_def)

lemma network_error_failed: "request_failed (Inl e)"
  by (simp add: request_failed_def)


section \<open>Properties of the fallback synthesizer\<close>



text \<open>
  Claim C6. With no API key, \<^verbatim>\<open>callAI("I want meal prep for my kid")\<close> returns before it
  reaches \<^verbatim>\<open>fetch\<close>, so no request is sent and the result does not depend on the network;
  the result is the template for a family with a child, which is not empty and asks how
  many adults are in the household.
\<close>

theorem no_key_kid_meal_prep:
  assumes "apiKey cfg = []"
  shows "callAI_begin cfg lc ''I want meal prep for my kid'' s =
           Returned (Inr (JStr template_child))
             (s\<lparr>conversationHistory := conversationHistory s @
                  [\<lparr>role = ''user'', content = JStr ''I want meal prep for my kid''\<rparr>]\<rparr>)
     \<and> fst (callAI cfg lc outcome ''I want meal prep for my kid'' s) = Inr (JStr template_child)
     \<and> template_child \<noteq> []
     \<and> includes_str template_child ''How many adults are in your household?''"
proof -
  have i: "includes_str template_child ''How many adults are in your household?''"
    by (simp add: template_child_def)
  show ?thesis
    using assms getMock_kid i by (simp add: callAI_def callAI_begin_mock templates_nonempty)
qed

theorem no_key_kid_meal_prep_witness:
  "fst (callAI (CONFIG None) unchanged (Inl (TypeError ''Failed to fetch''))
          ''I want meal prep for my kid'' (state_at_load example_page)) =
     Inr (JStr template_child)
   \<and> includes_str template_child ''How many adults are in your household?''"
  using no_key_kid_meal_prep[of "CONFIG None" unchanged "state_at_load example_page"
      "Inl (TypeError ''Failed to fetch'')"]
  by (simp add: CONFIG_def)


section \<open>Properties of the submission controller\<close>

text \<open>
  Claim C4. When every character of the input is white space (or there is none), a
  submission does not change the transcript or the busy flag, sends no request, and
  changes the page only in the status line: the validation message is shown, and its
  expiry is scheduled unless the page is listening or busy.
\<close>

theorem blank_submission_only_sets_status:
  assumes "\<forall>ch\<in>set (chars (textInput_value s)). isWhiteSpace ch"
  shows "handleSubmit_begin cfg mk lc s =
           Done (Inr (), updateStatus ''Please enter a message or use the microphone.'' s)
     \<and> handleSubmit cfg mk lc outcome s =
           (Inr (), updateStatus ''Please enter a message or use the microphone.'' s)
     \<and> updateStatus ''Please enter a message or use the microphone.'' s =
           s\<lparr>status_textContent := ''Please enter a message or use the microphone.'',
             status_active := True,
             timers := (if isListening s then timers s else if isLoading s then timers s
                        else Suc (timers s))\<rparr>
     \<and> conversationHistory (snd (handleSubmit cfg mk lc outcome s)) = conversationHistory s
     \<and> isLoading (snd (handleSubmit cfg mk lc outcome s)) = isLoading s"
  using assms
  by (simp add: handleSubmit_def handleSubmit_begin_empty trim_empty_iff updateStatus_def
      Let_def)

text \<open>A blank, a no-break space U+00A0, an ideographic space U+3000, a byte order mark
  U+FEFF, a line separator U+2028, a tab and a line feed, on the page on which nothing
  has happened.\<close>

theorem blank_submission_only_sets_status_witness:
  "handleSubmit (CONFIG None) NoMarked unchanged (Inl (TypeError ''Failed to fetch''))
     (example_page\<lparr>textInput_value :=
        [CHR 0x20, CHR 0xC2, CHR 0xA0, CHR 0xE3, CHR 0x80, CHR 0x80, CHR 0xEF, CHR 0xBB,
         CHR 0xBF, CHR 0xE2, CHR 0x80, CHR 0xA8, CHR 0x09, CHR 0x0A]\<rparr>) =
   (Inr (),
    example_page\<lparr>textInput_value :=
        [CHR 0x20, CHR 0xC2, CHR 0xA0, CHR 0xE3, CHR 0x80, CHR 0x80, CHR 0xEF, CHR 0xBB,
         CHR 0xBF, CHR 0xE2, CHR 0x80, CHR 0xA8, CHR 0x09, CHR 0x0A],
      status_textContent := ''Please enter a message or use the microphone.'',
      status_active := True, timers := 1\<rparr>)"
  using blank_submission_only_sets_status
    [of "example_page\<lparr>textInput_value :=
        [CHR 0x20, CHR 0xC2, CHR 0xA0, CHR 0xE3, CHR 0x80, CHR 0x80, CHR 0xEF, CHR 0xBB,
         CHR 0xBF, CHR 0xE2, CHR 0x80, CHR 0xA8, CHR 0x09, CHR 0x0A]\<rparr>"
      "CONFIG None" NoMarked unchanged "Inl (TypeError ''Failed to fetch'')"]
  by (simp add: isWhiteSpace_def whiteSpace_def is_continuation_def example_page_def)

text \<open>
  Claim C3, as stated, fails for blank text: \<^verbatim>\<open>handleSubmit\<close> tests for empty input
  before it tests the busy flag, so a blank submission on a busy page replaces the status
  line \<open>Thinking...\<close> by the validation message.
\<close>

theorem busy_blank_submission_changes_status:
  "isLoading (app example_busy)
   \<and> status_textContent (app example_busy) = ''Thinking...''
   \<and> status_textContent (app (dispatch NoMarked unchanged SendRequested example_busy)) =
       ''Please enter a message or use the microphone.''"
  using example_busy_facts
  by (simp add: handleSubmit_begin_def trim_examples after_def)

text \<open>
  Claim C3, amended. A submission on a busy page sends no request and queues nothing, and
  leaves the transcript, the messages shown, the input field and the busy flag as they
  are, whatever the text. If \<^verbatim>\<open>trim\<close> leaves something of the text, the page is left
  exactly as it is; if the text is empty or all white space, the validation message is
  shown in the status line.
\<close>

theorem busy_submission_rejected:
  assumes "isLoading (app sys)"
  shows "dispatch mk lc SendRequested sys =
           sys\<lparr>app := (if \<forall>ch\<in>set (chars (textInput_value (app sys))). isWhiteSpace ch
                        then updateStatus ''Please enter a message or use the microphone.''
                               (app sys)
                        else app sys)\<rparr>
     \<and> handleSubmit cfg mk lc outcome (app sys) =
           (Inr (),
            if \<forall>ch\<in>set (chars (textInput_value (app sys))). isWhiteSpace ch
            then updateStatus ''Please enter a message or use the microphone.'' (app sys)
            else app sys)
     \<and> inflight (dispatch mk lc SendRequested sys) = inflight sys
     \<and> conversationHistory (app (dispatch mk lc SendRequested sys)) =
         conversationHistory (app sys)
     \<and> conversation (app (dispatch mk lc SendRequested sys)) = conversation (app sys)
     \<and> textInput_value (app (dispatch mk lc SendRequested sys)) = textInput_value (app sys)
     \<and> isLoading (app (dispatch mk lc SendRequested sys))
     \<and> (trim (textInput_value (app sys)) \<noteq> [] \<longrightarrow> dispatch mk lc SendRequested sys = sys)"
  using assms
  by (simp add: handleSubmit_def handleSubmit_begin_empty handleSubmit_begin_busy after_def
      trim_empty_iff[symmetric])

text \<open>While the request for \<open>hello\<close> is in flight the user types \<open>again\<close> and sends it.\<close>

theorem busy_submission_rejected_witness:
  "dispatch NoMarked unchanged SendRequested
     (dispatch NoMarked unchanged (InputEdited ''again'') example_busy) =
     dispatch NoMarked unchanged (InputEdited ''again'') example_busy"
proof -
  have b: "isLoading (app (dispatch NoMarked unchanged (InputEdited ''again'') example_busy))"
    using example_busy_facts(1) by simp
  have t: "trim (textInput_value
             (app (dispatch NoMarked unchanged (InputEdited ''again'') example_busy))) \<noteq> []"
    by (simp add: trim_examples)
  show ?thesis
    using busy_submission_rejected[OF b, of NoMarked unchanged "CONFIG None" "Inl (Error [])"] t
    by blast
qed

text \<open>While the request is in flight the user types a no-break space U+00A0 and sends it:
  the text is blank, and the validation message is shown.\<close>

lemma busy_nbsp_submission:
  "status_textContent
     (app (dispatch NoMarked unchanged SendRequested
            (dispatch NoMarked unchanged (InputEdited [CHR 0xC2, CHR 0xA0]) example_busy))) =
     ''Please enter a message or use the microphone.''"
  using example_busy_facts(1)
  by (simp add: handleSubmit_begin_def trim_eval after_def)


section \<open>Properties of the AI client\<close>

text \<open>What \<^verbatim>\<open>callAI\<close> does when the request fails, and when it does not.\<close>

lemma failed_request_falls_back:
  assumes "apiKey cfg \<noteq> []" "\<not> useMockAI cfg" "request_failed outcome"
  shows "fst (callAI cfg lc outcome m s) = Inr (JStr (getMockAIResponse lc m))
       \<and> getMockAIResponse lc m \<noteq> []
       \<and> \<not> isLoading (snd (callAI cfg lc outcome m s))"
  using assms by (simp add: callAI_def callAI_begin_api callAI_resume_failed getMock_nonempty)

text \<open>The service answers \<open>hello\<close> with an error status.\<close>

lemma failed_request_example:
  "fst (callAI (CONFIG (Some ''sk-test'')) lc example_rate_limited ''hello''
          (state_at_load page)) = Inr (JStr template_default)"
  using failed_request_falls_back[of "CONFIG (Some ''sk-test'')" example_rate_limited lc
      "''hello''" "state_at_load page"] example_rate_limited_failed getMock_hello[of lc]
  by (simp add: CONFIG_def)

lemma readable_content_returned:
  assumes "apiKey cfg \<noteq> []" "\<not> useMockAI cfg" "ok response"
    "bind_err (json response) choices_0_message_content = Inr v"
  shows "fst (callAI cfg lc (Inr response) m s) = Inr v
       \<and> conversationHistory (snd (callAI cfg lc (Inr response) m s)) =
           conversationHistory s @
             [\<lparr>role = ''user'', content = JStr m\<rparr>, \<lparr>role = ''assistant'', content = v\<rparr>]
       \<and> \<not> isLoading (snd (callAI cfg lc (Inr response) m s))"
  using assms
  by (simp add: callAI_def callAI_begin_api callAI_resume_def callAI_try_def try_catch_def
      try_finally_def)

text \<open>
  Claim C5 says that a malformed response body makes \<^verbatim>\<open>callAI\<close> return the fallback's
  answer, a non-empty string. The code does so where reading the body raises
  (\<open>failed_request_falls_back\<close>), but it does not check what it has read. From a success
  with the body \<^verbatim>\<open>{"choices":[{"message":{}}]}\<close> it reads \<^verbatim>\<open>undefined\<close> without an error,
  records that as the content of the assistant turn, and returns it.
\<close>

theorem missing_content_returns_undefined:
  "fst (callAI (CONFIG (Some ''sk-test'')) lc example_no_content ''hello''
          (state_at_load page)) = Inr JUndefined
   \<and> conversationHistory
       (snd (callAI (CONFIG (Some ''sk-test'')) lc example_no_content ''hello''
              (state_at_load page))) =
       [\<lparr>role = ''user'', content = JStr ''hello''\<rparr>,
        \<lparr>role = ''assistant'', content = JUndefined\<rparr>]"
proof -
  have r: "bind_err (json \<lparr>ok = True,
               json = Inr (JObj [(''choices'', JArr [JObj [(''message'', JObj [])]])])\<rparr>)
             choices_0_message_content = Inr JUndefined"
    by (simp add: bind_err_def choices_0_message_content_def)
  show ?thesis
    using readable_content_returned[OF _ _ _ r, of "CONFIG (Some ''sk-test'')" lc "''hello''"
        "state_at_load page"]
    by (simp add: example_no_content_def CONFIG_def state_at_load_def)
qed

text \<open>
  Claim C9, as stated, fails in its last part: the \<^verbatim>\<open>try\<close> block of \<^verbatim>\<open>handleSubmit\<close>
  holds \<^verbatim>\<open>addMessage(aiResponse, false)\<close> as well, so its \<^verbatim>\<open>catch\<close> branch runs when
  the renderer raises. Here the service answers with \<^verbatim>\<open>content: null\<close>, \<^verbatim>\<open>callAI\<close>
  returns \<^verbatim>\<open>null\<close>, the renderer rejects it, and the page ends with the error status and
  the apology.
\<close>

theorem renderer_error_reaches_catch:
  "status_textContent
     (snd (handleSubmit (CONFIG (Some ''sk-test'')) strict_marked unchanged
            example_null_content
            ((state_at_load example_page)\<lparr>textInput_value := ''hello''\<rparr>))) =
     ''Error: marked(): input parameter is undefined or null. '' @
     ''Please check your API configuration.''
   \<and> conversation
     (snd (handleSubmit (CONFIG (Some ''sk-test'')) strict_marked unchanged
            example_null_content
            ((state_at_load example_page)\<lparr>textInput_value := ''hello''\<rparr>))) =
     [\<lparr>className = ''message user'', shown = TextContent (JStr ''hello'')\<rparr>,
      \<lparr>className = ''message assistant'', shown = InnerHTML apology\<rparr>]"
  by (simp add: strict_marked_def example_null_content_def CONFIG_def
      choices_0_message_content_def page_defs submit_defs)

text \<open>
  Claim C9, amended. \<^verbatim>\<open>callAI\<close> never raises: a call that runs under one configuration
  returns a value, and on a reachable page, where the configuration changes only in
  \<^verbatim>\<open>init\<close>, the call that is in flight returns a value however its request settles. So
  the \<^verbatim>\<open>catch\<close> branch of \<^verbatim>\<open>handleSubmit\<close> is never entered because of \<^verbatim>\<open>callAI\<close>: what
  \<^verbatim>\<open>handleSubmit\<close> does once \<^verbatim>\<open>callAI\<close> has returned \<open>v\<close> is \<^verbatim>\<open>addMessage(v, false)\<close> under
  its \<^verbatim>\<open>catch\<close>, which is entered only if that call raises.
\<close>

theorem callAI_never_raises:
  "(\<exists>v s'. callAI cfg lc outcome m s = (Inr v, s')
           \<and> handleSubmit_finish mk (Inr v, s') =
               try_catch (addMessage mk v False s') (handleSubmit_catch mk))
   \<and> (reachable mk lc sys \<and> inflight sys = Some (req, um) \<longrightarrow>
        (\<exists>v s'. callAI_resume (sys_config sys) lc um outcome (app sys) = (Inr v, s')))"
proof (intro conjI impI)
  obtain v s' where c: "callAI cfg lc outcome m s = (Inr v, s')"
    using callAI_no_error[of cfg lc outcome m s] by blast
  have "handleSubmit_finish mk (Inr v, s') =
          try_catch (addMessage mk v False s') (handleSubmit_catch mk)"
    by (simp add: handleSubmit_finish_def)
  with c show "\<exists>v s'. callAI cfg lc outcome m s = (Inr v, s')
           \<and> handleSubmit_finish mk (Inr v, s') =
               try_catch (addMessage mk v False s') (handleSubmit_catch mk)"
    by blast
next
  assume a: "reachable mk lc sys \<and> inflight sys = Some (req, um)"
  then have "\<not> useMockAI (sys_config sys)"
    using reachable_invariant[of mk lc sys] by (simp add: invariant_def)
  then show "\<exists>v s'. callAI_resume (sys_config sys) lc um outcome (app sys) = (Inr v, s')"
    by (rule callAI_resume_no_error)
qed

text \<open>The request for \<open>hello\<close> is in flight and then fails in the network.\<close>

theorem callAI_never_raises_witness:
  "map_option snd (inflight example_busy) = Some ''hello''
   \<and> (\<exists>v s'. callAI_resume (sys_config example_busy) unchanged ''hello''
               (Inl (TypeError ''Failed to fetch'')) (app example_busy) = (Inr v, s'))"
proof -
  let ?req = "fetch_request (CONFIG (Some ''sk-test''))
             [\<lparr>role = ''system'', content = JStr SYSTEM_PROMPT\<rparr>,
              \<lparr>role = ''user'', content = JStr ''hello''\<rparr>]"
  have i: "inflight example_busy = Some (?req, ''hello'')"
    by (rule example_busy_inflight)
  have "\<exists>v s'. callAI_resume (sys_config example_busy) unchanged ''hello''
               (Inl (TypeError ''Failed to fetch'')) (app example_busy) = (Inr v, s')"
    using callAI_never_raises[of "CONFIG None" unchanged "Inl (TypeError ''Failed to fetch'')"
        "''hello''" example_page NoMarked example_busy ?req "''hello''"]
      example_busy_reachable i
    by blast
  then show ?thesis using i by simp
qed

text \<open>
  Claim C10. Whenever the answer of \<^verbatim>\<open>callAI\<close> comes from the fallback (mock mode, no
  key, or a failed request) the transcript gains the user turn only: the answer is not
  recorded. So in mock mode, starting from an idle page, a list of submissions with
  non-blank texts adds exactly their user turns, in order; from an empty transcript the
  result has as many turns as there were submissions, each with the role \<open>user\<close>.
\<close>

theorem fallback_answer_not_recorded:
  "(useMockAI cfg \<or> apiKey cfg = [] \<or> request_failed outcome \<longrightarrow>
      fst (callAI cfg lc outcome m s) = Inr (JStr (getMockAIResponse lc m))
      \<and> conversationHistory (snd (callAI cfg lc outcome m s)) =
          conversationHistory s @ [\<lparr>role = ''user'', content = JStr m\<rparr>])
   \<and> ((useMockAI cfg \<or> apiKey cfg = []) \<and> \<not> isLoading s
        \<and> (\<forall>input\<in>set inputs. trim (fst input) \<noteq> []) \<longrightarrow>
      conversationHistory (submit_all cfg mk lc inputs s) =
        conversationHistory s @
          map (\<lambda>input. \<lparr>role = ''user'', content = JStr (trim (fst input))\<rparr>) inputs
      \<and> (conversationHistory s = [] \<longrightarrow>
           length (conversationHistory (submit_all cfg mk lc inputs s)) = length inputs
           \<and> (\<forall>t\<in>set (conversationHistory (submit_all cfg mk lc inputs s)). role t = ''user'')))"
proof (intro conjI impI)
  assume a: "useMockAI cfg \<or> apiKey cfg = [] \<or> request_failed outcome"
  show "fst (callAI cfg lc outcome m s) = Inr (JStr (getMockAIResponse lc m))"
    by (rule callAI_fallback(1)[OF a])
  show "conversationHistory (snd (callAI cfg lc outcome m s)) =
          conversationHistory s @ [\<lparr>role = ''user'', content = JStr m\<rparr>]"
    by (rule callAI_fallback(2)[OF a])
next
  assume a: "(useMockAI cfg \<or> apiKey cfg = []) \<and> \<not> isLoading s
        \<and> (\<forall>input\<in>set inputs. trim (fst input) \<noteq> [])"
  then have h: "conversationHistory (submit_all cfg mk lc inputs s) =
        conversationHistory s @
          map (\<lambda>input. \<lparr>role = ''user'', content = JStr (trim (fst input))\<rparr>) inputs"
    using submit_all_mock[of cfg s inputs mk lc] by blast
  show "conversationHistory (submit_all cfg mk lc inputs s) =
        conversationHistory s @
          map (\<lambda>input. \<lparr>role = ''user'', content = JStr (trim (fst input))\<rparr>) inputs"
    by (rule h)
  assume e: "conversationHistory s = []"
  show "length (conversationHistory (submit_all cfg mk lc inputs s)) = length inputs"
    using h e by simp
  show "\<forall>t\<in>set (conversationHistory (submit_all cfg mk lc inputs s)). role t = ''user''"
    using h e by auto
qed

text \<open>A request that fails in the network, and two submissions on a page that \<^verbatim>\<open>init\<close>
  has put into mock mode.\<close>

theorem fallback_answer_not_recorded_witness:
  "request_failed (Inl (TypeError ''Failed to fetch''))
   \<and> conversationHistory
       (snd (callAI (CONFIG (Some ''sk-test'')) unchanged (Inl (TypeError ''Failed to fetch''))
              ''hello''
              (state_at_load example_page))) =
       [\<lparr>role = ''user'', content = JStr ''hello''\<rparr>]
   \<and> conversationHistory
       (submit_all (sys_config (init False None (system_at_load None example_page))) NoMarked
          unchanged [(''hello'', Inl (TypeError ''Failed to fetch'')),
           ('' meal plan '', Inl (TypeError ''Failed to fetch''))]
          (state_at_load example_page)) =
       [\<lparr>role = ''user'', content = JStr ''hello''\<rparr>,
        \<lparr>role = ''user'', content = JStr ''meal plan''\<rparr>]"
proof -
  let ?out = "Inl (TypeError ''Failed to fetch'') :: fetch_outcome"
  let ?cfg = "sys_config (init False None (system_at_load None example_page))"
  let ?inputs = "[(''hello'', ?out), ('' meal plan '', ?out)]"
  have f: "request_failed ?out"
    by (rule network_error_failed)
  have u: "useMockAI ?cfg"
    by (simp add: page_defs)
  have i: "\<not> isLoading (state_at_load example_page)"
    and e: "conversationHistory (state_at_load example_page) = []"
    by (simp_all add: state_at_load_def)
  have acc: "\<forall>input\<in>set ?inputs. trim (fst input) \<noteq> []"
    using trim_examples by simp
  have one: "conversationHistory
       (snd (callAI (CONFIG (Some ''sk-test'')) unchanged ?out ''hello''
              (state_at_load example_page))) =
       conversationHistory (state_at_load example_page) @
         [\<lparr>role = ''user'', content = JStr ''hello''\<rparr>]"
    using fallback_answer_not_recorded[of "CONFIG (Some ''sk-test'')" ?out unchanged "''hello''"
        "state_at_load example_page" "[]" NoMarked] f
    by blast
  have two: "conversationHistory
       (submit_all ?cfg NoMarked unchanged ?inputs (state_at_load example_page)) =
       conversationHistory (state_at_load example_page) @
         map (\<lambda>input. \<lparr>role = ''user'', content = JStr (trim (fst input))\<rparr>) ?inputs"
    using fallback_answer_not_recorded[of ?cfg ?out unchanged "''hello''" "state_at_load example_page"
        ?inputs NoMarked] u i acc
    by blast
  show ?thesis
    using f one two e trim_examples by simp
qed

text \<open>
  Claim C1 says that every accepted submission adds a user turn and an assistant turn, also
  when the answer comes from the fallback. The code adds the assistant turn only where the
  service has answered (\<open>submit_answered\<close>). After one accepted submission the transcript
  holds one turn, not two, both on a page without a key and on a page whose request fails
  in the network.
\<close>

theorem fallback_submission_leaves_one_turn:
  "conversationHistory
     (submit_all (CONFIG None) mk lc [(''hello'', outcome)] (state_at_load page)) =
     [\<lparr>role = ''user'', content = JStr ''hello''\<rparr>]
   \<and> conversationHistory
     (submit_all (CONFIG (Some ''sk-test'')) mk lc
        [(''hello'', Inl (TypeError ''Failed to fetch''))] (state_at_load page)) =
     [\<lparr>role = ''user'', content = JStr ''hello''\<rparr>]"
proof -
  have a: "conversationHistory
      (submit (CONFIG None) mk lc (''hello'', outcome) (state_at_load page)) =
      [\<lparr>role = ''user'', content = JStr ''hello''\<rparr>]"
    using submit_mock(1)[of "CONFIG None" "state_at_load page" "(''hello'', outcome)" mk lc]
      trim_examples(1)
    by (simp add: CONFIG_def state_at_load_def)
  have b: "conversationHistory
     (submit (CONFIG (Some ''sk-test'')) mk lc (''hello'', Inl (TypeError ''Failed to fetch''))
        (state_at_load page)) = [\<lparr>role = ''user'', content = JStr ''hello''\<rparr>]"
    using submit_failed[of "CONFIG (Some ''sk-test'')"
        "(''hello'', Inl (TypeError ''Failed to fetch''))" "state_at_load page" mk lc]
      trim_examples(1) network_error_failed
    by (simp add: CONFIG_def state_at_load_def)
  show ?thesis using a b by simp
qed

text \<open>
  Claim C2 says that the second request carries the system prompt, the first user turn,
  the first assistant turn and the second user turn. The request always carries the
  system prompt and the whole transcript (\<open>callAI_begin_request\<close>), but the transcript
  lacks every answer that came from the fallback. Here the first request fails in the
  network and the fallback's answer is shown to the user; the second request then carries
  the system prompt and the two user turns only.
\<close>

theorem second_request_after_fallback:
  "map_option (\<lambda>x. messages (body (fst x))) (inflight example_second_request) =
     Some [\<lparr>role = ''system'', content = JStr SYSTEM_PROMPT\<rparr>,
           \<lparr>role = ''user'', content = JStr ''first''\<rparr>,
           \<lparr>role = ''user'', content = JStr ''second''\<rparr>]
   \<and> conversation (app example_second_request) =
     [\<lparr>className = ''message user'', shown = TextContent (JStr ''first'')\<rparr>,
      \<lparr>className = ''message assistant'', shown = TextContent (JStr template_default)\<rparr>,
      \<lparr>className = ''message user'', shown = TextContent (JStr ''second'')\<rparr>]"
  by (simp add: example_second_request_def page_defs submit_defs getMock_first)


section \<open>Properties of speech capture\<close>

text \<open>
  Claim C8. On every reachable page \<^verbatim>\<open>stopListening\<close> returns without an error, whether
  or not the recognizer's \<^verbatim>\<open>stop\<close> raises, and the page is not listening afterwards; when
  the page is not listening, the call changes nothing.
\<close>

theorem stopListening_leaves_inactive:
  assumes "reachable mk lc sys"
  shows "fst (stopListening raises (app sys)) = Inr ()
     \<and> \<not> isListening (snd (stopListening raises (app sys)))
     \<and> (\<not> isListening (app sys) \<longrightarrow> stopListening raises (app sys) = (Inr (), app sys))"
  using reachable_invariant[OF assms]
  by (simp add: invariant_def stopListening_result stopListening_off stopListening_idle)

text \<open>The page is listening, and the recognizer's \<^verbatim>\<open>stop\<close> raises.\<close>

theorem stopListening_leaves_inactive_witness:
  "isListening (app example_listening)
   \<and> fst (stopListening (Some (Error ''InvalidStateError'')) (app example_listening)) = Inr ()
   \<and> \<not> isListening
         (snd (stopListening (Some (Error ''InvalidStateError'')) (app example_listening)))"
  using stopListening_leaves_inactive[OF example_listening_reachable,
      of "Some (Error ''InvalidStateError'')"] example_listening_on
  by simp

end
